theory Spec2Isabelle
  imports Complex_Main "HOL-Library.AList" "HOL-Library.Sublist"
begin

section \<open>Exceptions\<close>

text \<open>
  The exceptions that the statements of \<^verbatim>\<open>server.py\<close> can raise. All of them derive
  from Python's \<^verbatim>\<open>Exception\<close>; each carries the text that \<^verbatim>\<open>str(e)\<close> is built from.
  \<open>HTTPError\<close> stands for what \<^verbatim>\<open>client.get\<close> raises (connection, timeout, protocol),
  \<open>JSONDecodeError\<close> for what \<^verbatim>\<open>response.json()\<close> raises. The cancellation of the
  running task and the exit of the interpreter, which are not \<^verbatim>\<open>Exception\<close>s and come
  from outside the statements, are not part of this sequential model.
\<close>

datatype exn =
    KeyError string
  | ValueError string
  | TypeError string
  | IndexError string
  | HTTPError string
  | JSONDecodeError string

text \<open>\<^verbatim>\<open>str(e)\<close>: a \<^verbatim>\<open>KeyError\<close> prints the repr of its key, so \<^verbatim>\<open>str(KeyError('lat'))\<close>
  is the five characters \<^verbatim>\<open>'lat'\<close>; the others print their message.\<close>

fun str_exn :: "exn \<Rightarrow> string" where
  "str_exn (KeyError k) = CHR 0x27 # k @ [CHR 0x27]"
| "str_exn (ValueError m) = m"
| "str_exn (TypeError m) = m"
| "str_exn (IndexError m) = m"
| "str_exn (HTTPError m) = m"
| "str_exn (JSONDecodeError m) = m"

text \<open>Sequencing of statements that may raise: the first exception ends the block.\<close>

definition and_then :: "exn + 'a \<Rightarrow> ('a \<Rightarrow> exn + 'b) \<Rightarrow> exn + 'b" where
  "and_then m f = (case m of Inl e \<Rightarrow> Inl e | Inr x \<Rightarrow> f x)"

text \<open>\<^verbatim>\<open>d[k]\<close> on a dict whose entry for \<open>k\<close> is the given option.\<close>

definition getitem :: "string \<Rightarrow> 'a option \<Rightarrow> exn + 'a" where
  "getitem k v = (case v of None \<Rightarrow> Inl (KeyError k) | Some x \<Rightarrow> Inr x)"

section \<open>The JSON documents\<close>

text \<open>
  A JSON object is a record of the keys the code reads, each one optional (\<open>None\<close>: the
  key is absent) and typed as the GBFS 2.3 schema types it: identifiers and names are
  strings, flags are booleans, counts are non-negative integers, positions are numbers.
  One record serves for the entries of \<^verbatim>\<open>station_information\<close> and of
  \<^verbatim>\<open>station_status\<close>, which both live under \<^verbatim>\<open>data.stations\<close>.
\<close>

record vehicle_obj =
  v_vehicle_type_id :: "string option"
  v_count :: "nat option"

record station_obj =
  s_station_id :: "string option"
  s_name :: "string option"
  s_lat :: "real option"
  s_lon :: "real option"
  s_is_renting :: "bool option"
  s_is_returning :: "bool option"
  s_num_bikes_available :: "nat option"
  s_num_docks_available :: "nat option"
  s_vehicle_types_available :: "vehicle_obj list option"

record bike_obj =
  b_bike_id :: "string option"
  b_lat :: "real option"
  b_lon :: "real option"
  b_is_reserved :: "bool option"
  b_is_disabled :: "bool option"
  b_vehicle_type_id :: "string option"

record feed_obj =
  f_name :: "string option"
  f_url :: "string option"

record locale_obj =
  l_feeds :: "feed_obj list option"

record data_obj =
  d_en :: "locale_obj option"
  d_stations :: "station_obj list option"
  d_bikes :: "bike_obj list option"

record document =
  doc_data :: "data_obj option"

section \<open>The HTTP client\<close>

text \<open>
  A response is its status code and the outcome of \<^verbatim>\<open>response.json()\<close>. The client is
  a parameter: \<open>client i url\<close> is the outcome of the \<open>i\<close>-th GET that one query issues
  (an exception, or a response). \<open>url\<close> is optional because \<^verbatim>\<open>get_feed_url\<close> returns
  \<^verbatim>\<open>feed.get("url")\<close>.
\<close>

record response =
  status_code :: nat
  r_json :: "exn + document"

type_synonym client = "nat \<Rightarrow> string option \<Rightarrow> exn + response"

definition GBFS_DISCOVERY_URL :: string where
  "GBFS_DISCOVERY_URL = ''https://gbfs.baywheels.com/gbfs/2.3/gbfs.json''"

text \<open>The loop of \<^verbatim>\<open>get_feed_url\<close> over the feed list, and the \<^verbatim>\<open>raise\<close> after it.\<close>

fun scan_feeds :: "string \<Rightarrow> feed_obj list \<Rightarrow> exn + string option" where
  "scan_feeds feed_name [] = Inl (ValueError (''Feed '' @ feed_name @ '' not found''))"
| "scan_feeds feed_name (feed # feeds) =
     (if f_name feed = Some feed_name then Inr (f_url feed)
      else scan_feeds feed_name feeds)"

text \<open>\<^verbatim>\<open>data.get("data", {}).get("en", {}).get("feeds", [])\<close>\<close>

definition feeds_of :: "document \<Rightarrow> feed_obj list" where
  "feeds_of doc =
     (case doc_data doc of None \<Rightarrow> []
      | Some d \<Rightarrow> (case d_en d of None \<Rightarrow> []
         | Some l \<Rightarrow> (case l_feeds l of None \<Rightarrow> [] | Some fs \<Rightarrow> fs)))"

definition get_feed_url :: "client \<Rightarrow> nat \<Rightarrow> string \<Rightarrow> exn + string option" where
  "get_feed_url cl i feed_name =
     and_then (cl i (Some GBFS_DISCOVERY_URL)) (\<lambda>response.
     and_then (r_json response) (\<lambda>doc.
       scan_feeds feed_name (feeds_of doc)))"

definition fetch_feed :: "client \<Rightarrow> nat \<Rightarrow> string option \<Rightarrow> exn + document" where
  "fetch_feed cl i url = and_then (cl i url) (\<lambda>response. r_json response)"

section \<open>Strings\<close>

text \<open>
  Labels are ASCII strings. \<^verbatim>\<open>str.lower()\<close> maps the letters A to Z to a to z and
  leaves every other character as it is; \<^verbatim>\<open>sub in s\<close> on strings is the test for a
  contiguous substring, \<^const>\<open>sublist\<close>.
\<close>

definition lower_char :: "char \<Rightarrow> char" where
  "lower_char c =
     (let n = (of_char c :: nat) in if 65 \<le> n \<and> n \<le> 90 then char_of (n + 32) else c)"

definition lower :: "string \<Rightarrow> string" where
  "lower s = map lower_char s"

text \<open>\<^verbatim>\<open>str(n)\<close> of a non-negative integer: its decimal digits.\<close>

definition digit_char :: "nat \<Rightarrow> char" where
  "digit_char d = char_of (48 + d)"

fun str_nat :: "nat \<Rightarrow> string" where
  "str_nat n = (if n < 10 then [digit_char n] else str_nat (n div 10) @ [digit_char (n mod 10)])"

declare str_nat.simps [simp del]

text \<open>
  \<^verbatim>\<open>f"{x:.1f}"\<close>: the decimal with one digit after the point that is nearest to the
  exact value of \<open>x\<close>, a tie going to the even digit; the sign is kept.
\<close>

definition round_half_even :: "real \<Rightarrow> int" where
  "round_half_even x =
     (let f = \<lfloor>x\<rfloor>; d = x - of_int f
      in if d < 1 / 2 then f else if 1 / 2 < d then f + 1 else if even f then f else f + 1)"

definition fmt_1f :: "real \<Rightarrow> string" where
  "fmt_1f x =
     (let t = nat (round_half_even (\<bar>x\<bar> * 10))
      in (if x < 0 then ''-'' else []) @ str_nat (t div 10) @ ''.'' @ str_nat (t mod 10))"

section \<open>The environment of a query\<close>

text \<open>
  What the operations take from outside the repository: the HTTP client, geopy's
  \<^verbatim>\<open>geodesic(p, q).meters\<close> (which raises \<^verbatim>\<open>ValueError\<close> on a latitude outside
  \<open>[-90, 90]\<close>, so its result is an exception or a distance), and Python's \<^verbatim>\<open>str\<close>
  of a float, used to print the position.
\<close>

record env =
  client_get :: client
  geodesic_meters :: "real \<times> real \<Rightarrow> real \<times> real \<Rightarrow> exn + real"
  str_float :: "real \<Rightarrow> string"

section \<open>Candidates\<close>

text \<open>The dicts appended to \<^verbatim>\<open>candidates\<close>: with a \<^verbatim>\<open>"type"\<close> key in
  \<^verbatim>\<open>find_nearest_bike\<close>, without it in \<^verbatim>\<open>find_nearest_dock_spaces\<close>.\<close>

record candidate =
  c_type :: string
  c_name :: string
  c_distance :: real
  c_available :: nat
  c_lat :: real
  c_lon :: real

record dock_candidate =
  dc_name :: string
  dc_distance :: real
  dc_available :: nat
  dc_lat :: real
  dc_lon :: real

text \<open>
  \<^verbatim>\<open>{s["station_id"]: s for s in xs}\<close>. A Python dict keeps the order in which its keys
  were first inserted and the value stored last, which is what \<^const>\<open>AList.update\<close>
  does on an association list; \<^verbatim>\<open>d.get(k)\<close> is \<^const>\<open>map_of\<close>.
\<close>

fun dict_by_station_id ::
  "(string \<times> station_obj) list \<Rightarrow> station_obj list \<Rightarrow> exn + (string \<times> station_obj) list" where
  "dict_by_station_id d [] = Inr d"
| "dict_by_station_id d (s # ss) =
     and_then (getitem ''station_id'' (s_station_id s)) (\<lambda>k.
       dict_by_station_id (AList.update k s d) ss)"

definition stations_of :: "document \<Rightarrow> exn + (string \<times> station_obj) list" where
  "stations_of doc =
     and_then (getitem ''data'' (doc_data doc)) (\<lambda>d.
     and_then (getitem ''stations'' (d_stations d)) (\<lambda>ss.
       dict_by_station_id [] ss))"

definition bikes_of :: "document \<Rightarrow> exn + bike_obj list" where
  "bikes_of doc =
     and_then (getitem ''data'' (doc_data doc)) (\<lambda>d. getitem ''bikes'' (d_bikes d))"

text \<open>A \<^verbatim>\<open>for\<close> loop whose body either raises, or runs \<^verbatim>\<open>continue\<close> (\<open>None\<close>), or
  appends one candidate (\<open>Some\<close>).\<close>

fun collect :: "('a \<Rightarrow> exn + 'c option) \<Rightarrow> 'a list \<Rightarrow> 'c list \<Rightarrow> exn + 'c list" where
  "collect body [] candidates = Inr candidates"
| "collect body (x # xs) candidates =
     (case body x of
        Inl e \<Rightarrow> Inl e
      | Inr None \<Rightarrow> collect body xs candidates
      | Inr (Some c) \<Rightarrow> collect body xs (candidates @ [c]))"

section \<open>find_nearest_bike\<close>

text \<open>Lines 70 to 75: the vehicle type the label asks for. \<^verbatim>\<open>if bike_type:\<close> is false
  for \<^verbatim>\<open>None\<close> and for the empty string.\<close>

definition target_type_id :: "string option \<Rightarrow> string option" where
  "target_type_id bike_type =
     (case bike_type of
        None \<Rightarrow> None
      | Some bt \<Rightarrow>
          if bt = [] then None
          else if sublist ''electric'' (lower bt) \<or> sublist ''ebike'' (lower bt) then Some ''2''
          else if sublist ''classic'' (lower bt) \<or> sublist ''standard'' (lower bt) then Some ''1''
          else None)"

text \<open>\<^verbatim>\<open>if target_type_id:\<close> holds for a non-empty string.\<close>

definition restricted :: "string option \<Rightarrow> bool" where
  "restricted target = (target \<noteq> None \<and> target \<noteq> Some [])"

text \<open>Lines 87 to 89: the loop over \<^verbatim>\<open>vehicle_types_available\<close>.\<close>

fun sum_matching :: "string option \<Rightarrow> nat \<Rightarrow> vehicle_obj list \<Rightarrow> nat" where
  "sum_matching target available_count [] = available_count"
| "sum_matching target available_count (v # vs) =
     sum_matching target
       (if v_vehicle_type_id v = target
        then available_count + (case v_count v of None \<Rightarrow> 0 | Some n \<Rightarrow> n)
        else available_count) vs"

text \<open>Lines 83 to 92.\<close>

definition available_count :: "string option \<Rightarrow> station_obj \<Rightarrow> nat" where
  "available_count target status =
     (if restricted target then
        (case s_vehicle_types_available status of
           None \<Rightarrow> 0
         | Some vs \<Rightarrow> sum_matching target 0 vs)
      else (case s_num_bikes_available status of None \<Rightarrow> 0 | Some n \<Rightarrow> n))"

text \<open>
  Lines 79 to 103, the body of the loop over \<^verbatim>\<open>stations.items()\<close>. A joined status
  holds its \<^verbatim>\<open>station_id\<close> key, so it is a non-empty dict and \<^verbatim>\<open>not status\<close> is true
  only when \<^verbatim>\<open>statuses.get\<close> returned \<^verbatim>\<open>None\<close>.
\<close>

definition station_step ::
  "env \<Rightarrow> real \<Rightarrow> real \<Rightarrow> int \<Rightarrow> string option \<Rightarrow> (string \<times> station_obj) list
     \<Rightarrow> string \<times> station_obj \<Rightarrow> exn + candidate option" where
  "station_step ev latitude longitude cnt target statuses item =
     (case item of (station_id, station) \<Rightarrow>
       (case map_of statuses station_id of
          None \<Rightarrow> Inr None
        | Some status \<Rightarrow>
            if s_is_renting status \<noteq> Some True then Inr None
            else if cnt \<le> int (available_count target status) then
              and_then (getitem ''lat'' (s_lat station)) (\<lambda>slat.
              and_then (getitem ''lon'' (s_lon station)) (\<lambda>slon.
              and_then (geodesic_meters ev (latitude, longitude) (slat, slon)) (\<lambda>dist.
              and_then (getitem ''name'' (s_name station)) (\<lambda>nm.
                Inr (Some \<lparr>c_type = ''Station'', c_name = nm, c_distance = dist,
                           c_available = available_count target status,
                           c_lat = slat, c_lon = slon\<rparr>)))))
            else Inr None))"

text \<open>Lines 108 to 123, the body of the loop over \<^verbatim>\<open>free_bikes\<close>.\<close>

definition bike_step ::
  "env \<Rightarrow> real \<Rightarrow> real \<Rightarrow> string option \<Rightarrow> bike_obj \<Rightarrow> exn + candidate option" where
  "bike_step ev latitude longitude target bike =
     (if b_is_reserved bike = Some True \<or> b_is_disabled bike = Some True then Inr None
      else if restricted target \<and> b_vehicle_type_id bike \<noteq> target then Inr None
      else
        and_then (getitem ''lat'' (b_lat bike)) (\<lambda>blat.
        and_then (getitem ''lon'' (b_lon bike)) (\<lambda>blon.
        and_then (geodesic_meters ev (latitude, longitude) (blat, blon)) (\<lambda>dist.
          Inr (Some \<lparr>c_type = ''Free Bike'',
                     c_name = ''Free Bike ('' @
                        (case b_bike_id bike of None \<Rightarrow> ''unknown'' | Some i \<Rightarrow> i) @ '')'',
                     c_distance = dist, c_available = 1, c_lat = blat, c_lon = blon\<rparr>)))))"

text \<open>Lines 66 to 123: the station loop, then the free-bike loop under
  \<^verbatim>\<open>if count == 1\<close>, both appending to the same list.\<close>

definition check_stations ::
  "env \<Rightarrow> real \<Rightarrow> real \<Rightarrow> int \<Rightarrow> string option \<Rightarrow> (string \<times> station_obj) list
     \<Rightarrow> (string \<times> station_obj) list \<Rightarrow> exn + candidate list" where
  "check_stations ev latitude longitude cnt target stations statuses =
     collect (station_step ev latitude longitude cnt target statuses) stations []"

definition select_candidates ::
  "env \<Rightarrow> real \<Rightarrow> real \<Rightarrow> int \<Rightarrow> string option \<Rightarrow> (string \<times> station_obj) list
     \<Rightarrow> (string \<times> station_obj) list \<Rightarrow> bike_obj list \<Rightarrow> exn + candidate list" where
  "select_candidates ev latitude longitude cnt target stations statuses free_bikes =
     and_then (check_stations ev latitude longitude cnt target stations statuses) (\<lambda>candidates.
       if cnt = 1 then collect (bike_step ev latitude longitude target) free_bikes candidates
       else Inr candidates)"

text \<open>
  Lines 129 and 130 (182 and 183): \<^verbatim>\<open>candidates.sort(key=...)\<close> is a stable sort by
  the key alone, as \<^const>\<open>sort_key\<close> is; \<^verbatim>\<open>candidates[0]\<close> raises on an empty list.
\<close>

definition nearest_of :: "('c \<Rightarrow> real) \<Rightarrow> 'c list \<Rightarrow> exn + 'c" where
  "nearest_of key candidates =
     (case sort_key key candidates of
        [] \<Rightarrow> Inl (IndexError ''list index out of range'')
      | nearest # _ \<Rightarrow> Inr nearest)"

definition newline :: string where
  "newline = [CHR 0x0A]"

text \<open>Lines 132 to 135.\<close>

definition render_bike :: "env \<Rightarrow> candidate \<Rightarrow> string" where
  "render_bike ev nearest =
     ''Nearest option: '' @ c_type nearest @ '' - '' @ c_name nearest @ newline @
     ''Distance: '' @ fmt_1f (c_distance nearest) @ '' meters'' @ newline @
     ''Available: '' @ str_nat (c_available nearest) @ newline @
     ''Location: '' @ str_float ev (c_lat nearest) @ '', '' @ str_float ev (c_lon nearest)"

text \<open>Lines 125 to 135.\<close>

definition answer_bike :: "env \<Rightarrow> candidate list \<Rightarrow> exn + string" where
  "answer_bike ev candidates =
     (if candidates = [] then Inr ''No bikes found matching criteria.''
      else and_then (nearest_of c_distance candidates) (\<lambda>nearest.
             Inr (render_bike ev nearest)))"

text \<open>
  Lines 51 to 123: the three URLs are resolved one after the other (requests 0 to 2),
  the three feeds are fetched by \<^verbatim>\<open>asyncio.gather\<close> (requests 3 to 5), then the
  candidates are selected. When several fetches fail, which exception \<^verbatim>\<open>gather\<close>
  raises depends on timing; here it is the first in argument order.
\<close>

definition bike_candidates ::
  "env \<Rightarrow> real \<Rightarrow> real \<Rightarrow> int \<Rightarrow> string option \<Rightarrow> exn + candidate list" where
  "bike_candidates ev latitude longitude cnt bike_type =
     and_then (get_feed_url (client_get ev) 0 ''station_information'') (\<lambda>station_info_url.
     and_then (get_feed_url (client_get ev) 1 ''station_status'') (\<lambda>station_status_url.
     and_then (get_feed_url (client_get ev) 2 ''free_bike_status'') (\<lambda>free_bike_status_url.
     and_then (fetch_feed (client_get ev) 3 station_info_url) (\<lambda>station_info_data.
     and_then (fetch_feed (client_get ev) 4 station_status_url) (\<lambda>station_status_data.
     and_then (fetch_feed (client_get ev) 5 free_bike_status_url) (\<lambda>free_bike_data.
     and_then (stations_of station_info_data) (\<lambda>stations.
     and_then (stations_of station_status_data) (\<lambda>statuses.
     and_then (bikes_of free_bike_data) (\<lambda>free_bikes.
       select_candidates ev latitude longitude cnt (target_type_id bike_type)
         stations statuses free_bikes)))))))))"

text \<open>The \<^verbatim>\<open>try\<close> block, lines 51 to 135.\<close>

definition find_nearest_bike_try ::
  "env \<Rightarrow> real \<Rightarrow> real \<Rightarrow> int \<Rightarrow> string option \<Rightarrow> exn + string" where
  "find_nearest_bike_try ev latitude longitude cnt bike_type =
     and_then (bike_candidates ev latitude longitude cnt bike_type) (answer_bike ev)"

text \<open>The operation, with its \<^verbatim>\<open>except Exception as e\<close> (lines 137 and 138).\<close>

definition find_nearest_bike :: "env \<Rightarrow> real \<Rightarrow> real \<Rightarrow> int \<Rightarrow> string option \<Rightarrow> string" where
  "find_nearest_bike ev latitude longitude cnt bike_type =
     (case find_nearest_bike_try ev latitude longitude cnt bike_type of
        Inr text \<Rightarrow> text
      | Inl e \<Rightarrow> ''Error finding nearest bike: '' @ str_exn e)"

section \<open>find_nearest_dock_spaces\<close>

text \<open>Lines 165 to 177, the body of the loop over \<^verbatim>\<open>stations.items()\<close>. The test reads
  \<^verbatim>\<open>status.get("num_docks_available", 0)\<close>, the candidate
  \<^verbatim>\<open>status["num_docks_available"]\<close>.\<close>

definition dock_step ::
  "env \<Rightarrow> real \<Rightarrow> real \<Rightarrow> int \<Rightarrow> (string \<times> station_obj) list
     \<Rightarrow> string \<times> station_obj \<Rightarrow> exn + dock_candidate option" where
  "dock_step ev latitude longitude cnt statuses item =
     (case item of (station_id, station) \<Rightarrow>
       (case map_of statuses station_id of
          None \<Rightarrow> Inr None
        | Some status \<Rightarrow>
            if s_is_returning status \<noteq> Some True then Inr None
            else if cnt \<le> int (case s_num_docks_available status of None \<Rightarrow> 0 | Some n \<Rightarrow> n) then
              and_then (getitem ''lat'' (s_lat station)) (\<lambda>slat.
              and_then (getitem ''lon'' (s_lon station)) (\<lambda>slon.
              and_then (geodesic_meters ev (latitude, longitude) (slat, slon)) (\<lambda>dist.
              and_then (getitem ''name'' (s_name station)) (\<lambda>nm.
              and_then (getitem ''num_docks_available'' (s_num_docks_available status)) (\<lambda>docks.
                Inr (Some \<lparr>dc_name = nm, dc_distance = dist, dc_available = docks,
                           dc_lat = slat, dc_lon = slon\<rparr>))))))
            else Inr None))"

definition check_docks ::
  "env \<Rightarrow> real \<Rightarrow> real \<Rightarrow> int \<Rightarrow> (string \<times> station_obj) list
     \<Rightarrow> (string \<times> station_obj) list \<Rightarrow> exn + dock_candidate list" where
  "check_docks ev latitude longitude cnt stations statuses =
     collect (dock_step ev latitude longitude cnt statuses) stations []"

text \<open>Lines 185 to 188.\<close>

definition render_dock :: "env \<Rightarrow> dock_candidate \<Rightarrow> string" where
  "render_dock ev nearest =
     ''Nearest dock with spaces: '' @ dc_name nearest @ newline @
     ''Distance: '' @ fmt_1f (dc_distance nearest) @ '' meters'' @ newline @
     ''Spaces Available: '' @ str_nat (dc_available nearest) @ newline @
     ''Location: '' @ str_float ev (dc_lat nearest) @ '', '' @ str_float ev (dc_lon nearest)"

text \<open>Lines 179 to 188.\<close>

definition answer_dock :: "env \<Rightarrow> dock_candidate list \<Rightarrow> exn + string" where
  "answer_dock ev candidates =
     (if candidates = [] then Inr ''No docks found with sufficient spaces.''
      else and_then (nearest_of dc_distance candidates) (\<lambda>nearest.
             Inr (render_dock ev nearest)))"

text \<open>Lines 151 to 177: requests 0 and 1 resolve the URLs, requests 2 and 3 fetch.\<close>

definition dock_candidates :: "env \<Rightarrow> real \<Rightarrow> real \<Rightarrow> int \<Rightarrow> exn + dock_candidate list" where
  "dock_candidates ev latitude longitude cnt =
     and_then (get_feed_url (client_get ev) 0 ''station_information'') (\<lambda>station_info_url.
     and_then (get_feed_url (client_get ev) 1 ''station_status'') (\<lambda>station_status_url.
     and_then (fetch_feed (client_get ev) 2 station_info_url) (\<lambda>station_info_data.
     and_then (fetch_feed (client_get ev) 3 station_status_url) (\<lambda>station_status_data.
     and_then (stations_of station_info_data) (\<lambda>stations.
     and_then (stations_of station_status_data) (\<lambda>statuses.
       check_docks ev latitude longitude cnt stations statuses))))))"

definition find_nearest_dock_spaces_try :: "env \<Rightarrow> real \<Rightarrow> real \<Rightarrow> int \<Rightarrow> exn + string" where
  "find_nearest_dock_spaces_try ev latitude longitude cnt =
     and_then (dock_candidates ev latitude longitude cnt) (answer_dock ev)"

text \<open>The operation, with its \<^verbatim>\<open>except Exception as e\<close> (lines 190 and 191).\<close>

definition find_nearest_dock_spaces :: "env \<Rightarrow> real \<Rightarrow> real \<Rightarrow> int \<Rightarrow> string" where
  "find_nearest_dock_spaces ev latitude longitude cnt =
     (case find_nearest_dock_spaces_try ev latitude longitude cnt of
        Inr text \<Rightarrow> text
      | Inl e \<Rightarrow> ''Error finding nearest dock spaces: '' @ str_exn e)"

section \<open>The specification's words\<close>

text \<open>
  The definitions of this section follow the sentences of the specification, not the
  code; the theorems below compare them with the code.
\<close>

text \<open>Section 4.3, step 4: with a type restriction, the sum of the per-type counts of
  the entries of the breakdown that match (0 without a breakdown or without a match);
  otherwise the aggregate count.\<close>

definition spec_available_count :: "string option \<Rightarrow> station_obj \<Rightarrow> nat" where
  "spec_available_count target status =
     (if restricted target then
        (case s_vehicle_types_available status of
           None \<Rightarrow> 0
         | Some vs \<Rightarrow>
             sum_list (map (\<lambda>v. case v_count v of None \<Rightarrow> 0 | Some n \<Rightarrow> n)
                           (filter (\<lambda>v. v_vehicle_type_id v = target) vs)))
      else (case s_num_bikes_available status of None \<Rightarrow> 0 | Some n \<Rightarrow> n))"

text \<open>A station is eligible when it has a joined status, that status is renting, and
  its available count reaches \<open>cnt\<close>.\<close>

definition spec_station_eligible ::
  "int \<Rightarrow> string option \<Rightarrow> (string \<times> station_obj) list \<Rightarrow> string \<times> station_obj \<Rightarrow> bool" where
  "spec_station_eligible cnt target statuses item =
     (case map_of statuses (fst item) of
        None \<Rightarrow> False
      | Some status \<Rightarrow>
          s_is_renting status = Some True \<and> cnt \<le> int (spec_available_count target status))"

text \<open>\<open>c\<close> is the Candidate of kind Station made from the dict entry \<open>item\<close>.\<close>

definition is_station_candidate ::
  "env \<Rightarrow> real \<Rightarrow> real \<Rightarrow> string option \<Rightarrow> (string \<times> station_obj) list
     \<Rightarrow> candidate \<Rightarrow> string \<times> station_obj \<Rightarrow> bool" where
  "is_station_candidate ev latitude longitude target statuses c item =
     (c_type c = ''Station'' \<and>
      s_name (snd item) = Some (c_name c) \<and>
      s_lat (snd item) = Some (c_lat c) \<and>
      s_lon (snd item) = Some (c_lon c) \<and>
      geodesic_meters ev (latitude, longitude) (c_lat c, c_lon c) = Inr (c_distance c) \<and>
      (case map_of statuses (fst item) of
         None \<Rightarrow> False
       | Some status \<Rightarrow> c_available c = spec_available_count target status))"

text \<open>Section 4.3, step 5: a free bike is kept unless it is reserved or disabled, or a
  type restriction is active and its vehicle type does not match.\<close>

definition spec_bike_eligible :: "string option \<Rightarrow> bike_obj \<Rightarrow> bool" where
  "spec_bike_eligible target bike =
     (b_is_reserved bike \<noteq> Some True \<and> b_is_disabled bike \<noteq> Some True \<and>
      (restricted target \<longrightarrow> b_vehicle_type_id bike = target))"

text \<open>\<open>c\<close> is the Candidate of kind Free Bike made from \<open>bike\<close>.\<close>

definition is_bike_candidate :: "env \<Rightarrow> real \<Rightarrow> real \<Rightarrow> candidate \<Rightarrow> bike_obj \<Rightarrow> bool" where
  "is_bike_candidate ev latitude longitude c bike =
     (c_type c = ''Free Bike'' \<and>
      c_name c =
        ''Free Bike ('' @ (case b_bike_id bike of None \<Rightarrow> ''unknown'' | Some i \<Rightarrow> i) @ '')'' \<and>
      b_lat bike = Some (c_lat c) \<and>
      b_lon bike = Some (c_lon c) \<and>
      geodesic_meters ev (latitude, longitude) (c_lat c, c_lon c) = Inr (c_distance c) \<and>
      c_available c = 1)"

text \<open>Section 4.3, step 3: a label contains a word, ignoring case, when some contiguous
  part of the label is the word once put in lower case. The electric type key is
  \<^verbatim>\<open>"2"\<close> and the classic one \<^verbatim>\<open>"1"\<close>.\<close>

definition ci_contains :: "string \<Rightarrow> string \<Rightarrow> bool" where
  "ci_contains label word = (\<exists>u. sublist u label \<and> lower u = word)"

definition spec_target_type :: "string option \<Rightarrow> string option" where
  "spec_target_type bike_type =
     (case bike_type of
        None \<Rightarrow> None
      | Some label \<Rightarrow>
          if ci_contains label ''electric'' \<or> ci_contains label ''ebike'' then Some ''2''
          else if ci_contains label ''classic'' \<or> ci_contains label ''standard'' then Some ''1''
          else None)"

text \<open>Section 4.4, steps 3 and 4: a station is eligible for docking when it has a joined
  status, that status is returning, and its available-dock count reaches \<open>cnt\<close>.\<close>

definition spec_dock_eligible ::
  "int \<Rightarrow> (string \<times> station_obj) list \<Rightarrow> string \<times> station_obj \<Rightarrow> bool" where
  "spec_dock_eligible cnt statuses item =
     (case map_of statuses (fst item) of
        None \<Rightarrow> False
      | Some status \<Rightarrow>
          s_is_returning status = Some True \<and>
          cnt \<le> int (case s_num_docks_available status of None \<Rightarrow> 0 | Some n \<Rightarrow> n))"

text \<open>\<open>c\<close> is the dock Candidate made from the dict entry \<open>item\<close>.\<close>

definition is_dock_candidate ::
  "env \<Rightarrow> real \<Rightarrow> real \<Rightarrow> (string \<times> station_obj) list
     \<Rightarrow> dock_candidate \<Rightarrow> string \<times> station_obj \<Rightarrow> bool" where
  "is_dock_candidate ev latitude longitude statuses c item =
     (s_name (snd item) = Some (dc_name c) \<and>
      s_lat (snd item) = Some (dc_lat c) \<and>
      s_lon (snd item) = Some (dc_lon c) \<and>
      geodesic_meters ev (latitude, longitude) (dc_lat c, dc_lon c) = Inr (dc_distance c) \<and>
      (case map_of statuses (fst item) of
         None \<Rightarrow> False
       | Some status \<Rightarrow> s_num_docks_available status = Some (dc_available c)))"

section \<open>Example feeds\<close>

text \<open>
  A small feed for the concrete instances below. The metric and the printing of
  positions stand in for geopy's geodesic and for Python's \<^verbatim>\<open>str\<close> of a float.
\<close>

definition info_entry :: "string \<Rightarrow> string \<Rightarrow> real \<Rightarrow> real \<Rightarrow> station_obj" where
  "info_entry i n la lo =
     \<lparr>s_station_id = Some i, s_name = Some n, s_lat = Some la, s_lon = Some lo,
      s_is_renting = None, s_is_returning = None, s_num_bikes_available = None,
      s_num_docks_available = None, s_vehicle_types_available = None\<rparr>"

definition status_entry ::
  "string \<Rightarrow> bool \<Rightarrow> bool \<Rightarrow> nat \<Rightarrow> nat option \<Rightarrow> vehicle_obj list option \<Rightarrow> station_obj" where
  "status_entry i renting returning bikes docks breakdown =
     \<lparr>s_station_id = Some i, s_name = None, s_lat = None, s_lon = None,
      s_is_renting = Some renting, s_is_returning = Some returning,
      s_num_bikes_available = Some bikes, s_num_docks_available = docks,
      s_vehicle_types_available = breakdown\<rparr>"

definition bike_entry :: "string \<Rightarrow> real \<Rightarrow> real \<Rightarrow> bool \<Rightarrow> bool \<Rightarrow> string \<Rightarrow> bike_obj" where
  "bike_entry i la lo reserved disabled ty =
     \<lparr>b_bike_id = Some i, b_lat = Some la, b_lon = Some lo, b_is_reserved = Some reserved,
      b_is_disabled = Some disabled, b_vehicle_type_id = Some ty\<rparr>"

definition stations_doc :: "station_obj list \<Rightarrow> document" where
  "stations_doc ss = \<lparr>doc_data = Some \<lparr>d_en = None, d_stations = Some ss, d_bikes = None\<rparr>\<rparr>"

definition bikes_doc :: "bike_obj list \<Rightarrow> document" where
  "bikes_doc bs = \<lparr>doc_data = Some \<lparr>d_en = None, d_stations = None, d_bikes = Some bs\<rparr>\<rparr>"

definition example_discovery :: document where
  "example_discovery =
     \<lparr>doc_data = Some \<lparr>d_en = Some \<lparr>l_feeds = Some
        [\<lparr>f_name = Some ''station_information'', f_url = Some ''https://feed/info.json''\<rparr>,
         \<lparr>f_name = Some ''station_status'', f_url = Some ''https://feed/status.json''\<rparr>,
         \<lparr>f_name = Some ''free_bike_status'', f_url = Some ''https://feed/bikes.json''\<rparr>]\<rparr>,
        d_stations = None, d_bikes = None\<rparr>\<rparr>"

definition ok_response :: "document \<Rightarrow> exn + response" where
  "ok_response doc = Inr \<lparr>status_code = 200, r_json = Inr doc\<rparr>"

definition example_client :: "document \<Rightarrow> document \<Rightarrow> document \<Rightarrow> client" where
  "example_client info status bikes i url =
     (if url = Some GBFS_DISCOVERY_URL then ok_response example_discovery
      else if url = Some ''https://feed/info.json'' then ok_response info
      else if url = Some ''https://feed/status.json'' then ok_response status
      else if url = Some ''https://feed/bikes.json'' then ok_response bikes
      else Inl (HTTPError ''All connection attempts failed''))"

definition example_metric :: "real \<times> real \<Rightarrow> real \<times> real \<Rightarrow> exn + real" where
  "example_metric p q =
     (if \<bar>fst p\<bar> \<le> 90 \<and> \<bar>fst q\<bar> \<le> 90
      then Inr (100000 * (\<bar>fst p - fst q\<bar> + \<bar>snd p - snd q\<bar>))
      else Inl (ValueError ''Latitude must be in the [-90; 90] range.''))"

definition example_env :: "document \<Rightarrow> document \<Rightarrow> document \<Rightarrow> env" where
  "example_env info status bikes =
     \<lparr>client_get = example_client info status bikes,
      geodesic_meters = example_metric,
      str_float = fmt_1f\<rparr>"

text \<open>Three stations and three free bikes around (37.8, -122.4): Market St and the free
  bike B1 are at the query point, Ferry is not renting, Depot has no dock count.\<close>

definition example_info :: "station_obj list" where
  "example_info =
     [info_entry ''s1'' ''Market St'' (378 / 10) (- (1224 / 10)),
      info_entry ''s2'' ''Ferry'' (378 / 10) (- (1224 / 10)),
      info_entry ''s3'' ''Depot'' (379 / 10) (- (1224 / 10))]"

definition example_status :: "station_obj list" where
  "example_status =
     [status_entry ''s1'' True True 5 (Some 3)
        (Some [\<lparr>v_vehicle_type_id = Some ''1'', v_count = Some 3\<rparr>,
               \<lparr>v_vehicle_type_id = Some ''2'', v_count = Some 2\<rparr>]),
      status_entry ''s2'' False False 9 (Some 9) None,
      status_entry ''s3'' True True 2 None None]"

definition example_bikes :: "bike_obj list" where
  "example_bikes =
     [bike_entry ''B1'' (378 / 10) (- (1224 / 10)) False False ''2'',
      bike_entry ''B2'' (378 / 10) (- (1224 / 10)) True False ''2'',
      bike_entry ''B3'' (378 / 10) (- (1225 / 10)) False False ''1'']"

definition example_stations :: "(string \<times> station_obj) list" where
  "example_stations = zip [''s1'', ''s2'', ''s3''] example_info"

definition example_statuses :: "(string \<times> station_obj) list" where
  "example_statuses = zip [''s1'', ''s2'', ''s3''] example_status"

definition ev1 :: env where
  "ev1 = example_env (stations_doc example_info) (stations_doc example_status)
           (bikes_doc example_bikes)"

definition market_st :: candidate where
  "market_st = \<lparr>c_type = ''Station'', c_name = ''Market St'', c_distance = 0, c_available = 5,
                c_lat = 378 / 10, c_lon = - (1224 / 10)\<rparr>"

definition depot :: candidate where
  "depot = \<lparr>c_type = ''Station'', c_name = ''Depot'', c_distance = 10000, c_available = 2,
            c_lat = 379 / 10, c_lon = - (1224 / 10)\<rparr>"

definition bike_b1 :: candidate where
  "bike_b1 = \<lparr>c_type = ''Free Bike'', c_name = ''Free Bike (B1)'', c_distance = 0,
              c_available = 1, c_lat = 378 / 10, c_lon = - (1224 / 10)\<rparr>"

definition bike_b3 :: candidate where
  "bike_b3 = \<lparr>c_type = ''Free Bike'', c_name = ''Free Bike (B3)'', c_distance = 10000,
              c_available = 1, c_lat = 378 / 10, c_lon = - (1225 / 10)\<rparr>"

text \<open>A client whose every request fails, and a candidate of the dock search.\<close>

definition down_client :: client where
  "down_client i url = Inl (HTTPError ''All connection attempts failed'')"



definition dock_market_st :: dock_candidate where
  "dock_market_st = \<lparr>dc_name = ''Market St'', dc_distance = 0, dc_available = 3,
                     dc_lat = 378 / 10, dc_lon = - (1224 / 10)\<rparr>"

text \<open>A client that answers 404 with a JSON body, and one whose body is not JSON.\<close>

definition error_body :: document where
  "error_body = \<lparr>doc_data = None\<rparr>"

definition not_found_client :: client where
  "not_found_client i url = Inr \<lparr>status_code = 404, r_json = Inr error_body\<rparr>"

definition garbled_client :: client where
  "garbled_client i url =
     Inr \<lparr>status_code = 200,
          r_json = Inl (JSONDecodeError ''Expecting value: line 1 column 1 (char 0)'')\<rparr>"

text \<open>A feed with one station whose status has no \<^verbatim>\<open>num_docks_available\<close>, which
  GBFS allows for a station with unlimited docking capacity.\<close>

definition virtual_info :: "station_obj list" where
  "virtual_info = [info_entry ''s3'' ''Depot'' (379 / 10) (- (1224 / 10))]"

definition virtual_status :: "station_obj list" where
  "virtual_status = [status_entry ''s3'' True True 2 None None]"

definition ev_virtual :: env where
  "ev_virtual = example_env (stations_doc virtual_info) (stations_doc virtual_status)
                  (bikes_doc [])"

section \<open>Auxiliary lemmas\<close>

lemma and_then_Inr_iff: "and_then m f = Inr y \<longleftrightarrow> (\<exists>x. m = Inr x \<and> f x = Inr y)"
  by (cases m) (simp_all add: and_then_def)

lemma and_then_Inl_iff:
  "and_then m f = Inl e \<longleftrightarrow> m = Inl e \<or> (\<exists>x. m = Inr x \<and> f x = Inl e)"
  by (cases m) (simp_all add: and_then_def)

lemma getitem_Inr_iff: "getitem k v = Inr x \<longleftrightarrow> v = Some x"
  by (cases v) (simp_all add: getitem_def)

text \<open>The loop returns exactly the candidates of the items it does not skip, in order,
  after those it started with; it raises as soon as one body raises.\<close>

lemma collect_Inr_iff:
  "collect body xs acc = Inr cs \<longleftrightarrow>
     (\<exists>ys. cs = acc @ ys \<and>
        list_all2 (\<lambda>c x. body x = Inr (Some c)) ys (filter (\<lambda>x. body x \<noteq> Inr None) xs))"
proof (induction xs arbitrary: acc)
  case Nil
  show ?case by auto
next
  case (Cons x xs)
  show ?case
  proof (cases "body x")
    case (Inl e)
    then show ?thesis by (auto simp: list_all2_Cons2)
  next
    case (Inr r)
    show ?thesis
    proof (cases r)
      case None
      with Inr Cons show ?thesis by simp
    next
      case (Some c)
      with Inr Cons show ?thesis by (auto simp: list_all2_Cons2)
    qed
  qed
qed

lemma list_all2_filter_conj:
  "list_all2 (\<lambda>c x. P x \<and> Q c x) ys (filter P xs) \<longleftrightarrow> list_all2 Q ys (filter P xs)"
proof -
  have "P (filter P xs ! i)" if "i < length (filter P xs)" for i
    using nth_mem[OF that] by simp
  then show ?thesis by (auto simp: list_all2_conv_all_nth)
qed

lemma sum_matching_eq:
  "sum_matching target acc vs =
     acc + sum_list (map (\<lambda>v. case v_count v of None \<Rightarrow> 0 | Some n \<Rightarrow> n)
                        (filter (\<lambda>v. v_vehicle_type_id v = target) vs))"
  by (induction vs arbitrary: acc) simp_all

lemma available_count_spec: "available_count target status = spec_available_count target status"
  by (simp add: available_count_def spec_available_count_def sum_matching_eq split: option.splits)

lemma station_step_None_iff:
  "station_step ev la lo cnt target statuses item = Inr None \<longleftrightarrow>
     \<not> spec_station_eligible cnt target statuses item"
  by (cases item)
     (auto simp: station_step_def spec_station_eligible_def available_count_spec
        and_then_Inr_iff getitem_Inr_iff split: option.splits)

lemma station_step_Some_iff:
  "station_step ev la lo cnt target statuses item = Inr (Some c) \<longleftrightarrow>
     spec_station_eligible cnt target statuses item \<and>
     is_station_candidate ev la lo target statuses c item"
  by (cases item, cases c)
     (auto simp: station_step_def spec_station_eligible_def is_station_candidate_def
        available_count_spec and_then_Inr_iff getitem_Inr_iff split: option.splits)

lemma bike_step_None_iff:
  "bike_step ev la lo target bike = Inr None \<longleftrightarrow> \<not> spec_bike_eligible target bike"
  by (auto simp: bike_step_def spec_bike_eligible_def and_then_Inr_iff getitem_Inr_iff)

lemma bike_step_Some_iff:
  "bike_step ev la lo target bike = Inr (Some c) \<longleftrightarrow>
     spec_bike_eligible target bike \<and> is_bike_candidate ev la lo c bike"
  by (cases c)
     (auto simp: bike_step_def spec_bike_eligible_def is_bike_candidate_def
        and_then_Inr_iff getitem_Inr_iff)

lemma check_free_bikes_iff:
  "collect (bike_step ev la lo target) free_bikes scs = Inr cs \<longleftrightarrow>
     (\<exists>bcs. cs = scs @ bcs \<and>
        list_all2 (is_bike_candidate ev la lo) bcs (filter (spec_bike_eligible target) free_bikes))"
  unfolding collect_Inr_iff bike_step_None_iff bike_step_Some_iff
  by (simp add: list_all2_filter_conj)

lemma select_candidates_iff:
  "select_candidates ev la lo cnt target stations statuses free_bikes = Inr cs \<longleftrightarrow>
     (\<exists>scs bcs. cs = scs @ bcs \<and>
        check_stations ev la lo cnt target stations statuses = Inr scs \<and>
        (if cnt = 1
         then list_all2 (is_bike_candidate ev la lo) bcs
                (filter (spec_bike_eligible target) free_bikes)
         else bcs = []))"
  unfolding select_candidates_def and_then_Inr_iff
  by (auto simp: check_free_bikes_iff)

lemma check_stations_iff:
  "check_stations ev la lo cnt target stations statuses = Inr cs \<longleftrightarrow>
     list_all2 (is_station_candidate ev la lo target statuses) cs
       (filter (spec_station_eligible cnt target statuses) stations)"
  unfolding check_stations_def collect_Inr_iff station_step_None_iff station_step_Some_iff
  by (simp add: list_all2_filter_conj)

lemma sort_key_eq_Nil_iff: "sort_key f xs = [] \<longleftrightarrow> xs = []"
  by (metis length_sort list.size(3) length_0_conv)

lemma hd_insort_key:
  "hd (insort_key f x ys) = (if ys = [] \<or> f x \<le> f (hd ys) then x else hd ys)"
  by (cases ys) auto

lemma hd_sort_key_first_min:
  fixes f :: "'a \<Rightarrow> real"
  assumes "xs \<noteq> []"
  shows "\<exists>i<length xs. hd (sort_key f xs) = xs ! i \<and>
           (\<forall>j<length xs. f (xs ! i) \<le> f (xs ! j)) \<and> (\<forall>j<i. f (xs ! i) < f (xs ! j))"
  using assms
proof (induction xs)
  case Nil
  then show ?case by simp
next
  case (Cons x xs)
  show ?case
  proof (cases "xs = []")
    case True
    then show ?thesis by simp
  next
    case False
    with Cons.IH obtain i where i: "i < length xs" "hd (sort_key f xs) = xs ! i"
      "\<forall>j<length xs. f (xs ! i) \<le> f (xs ! j)" "\<forall>j<i. f (xs ! i) < f (xs ! j)"
      by blast
    have ne: "sort_key f xs \<noteq> []" using False by (simp add: sort_key_eq_Nil_iff)
    show ?thesis
    proof (cases "f x \<le> f (xs ! i)")
      case True
      have "hd (sort_key f (x # xs)) = x"
        using True i(2) ne by (simp add: hd_insort_key)
      moreover have "\<forall>j<length (x # xs). f x \<le> f ((x # xs) ! j)"
      proof (intro allI impI)
        fix j assume "j < length (x # xs)"
        then show "f x \<le> f ((x # xs) ! j)"
          using True i(3) by (cases j) (auto intro: order_trans)
      qed
      ultimately show ?thesis by (intro exI[of _ 0]) simp
    next
      case False
      have h: "hd (sort_key f (x # xs)) = xs ! i"
        using False i(2) ne by (simp add: hd_insort_key)
      have a: "\<forall>j<length (x # xs). f (xs ! i) \<le> f ((x # xs) ! j)"
      proof (intro allI impI)
        fix j assume "j < length (x # xs)"
        then show "f (xs ! i) \<le> f ((x # xs) ! j)"
          using False i(3) by (cases j) auto
      qed
      have b: "\<forall>j<Suc i. f (xs ! i) < f ((x # xs) ! j)"
      proof (intro allI impI)
        fix j assume "j < Suc i"
        then show "f (xs ! i) < f ((x # xs) ! j)"
          using False i(4) by (cases j) auto
      qed
      show ?thesis
        using h a b i(1) by (intro exI[of _ "Suc i"]) simp
    qed
  qed
qed

lemma nearest_of_first_min:
  fixes key :: "'c \<Rightarrow> real"
  assumes "cs \<noteq> []"
  shows "\<exists>i<length cs. nearest_of key cs = Inr (cs ! i) \<and>
           (\<forall>j<length cs. key (cs ! i) \<le> key (cs ! j)) \<and> (\<forall>j<i. key (cs ! i) < key (cs ! j))"
proof -
  from hd_sort_key_first_min[OF assms, of key] obtain i where i: "i < length cs"
    "hd (sort_key key cs) = cs ! i" "\<forall>j<length cs. key (cs ! i) \<le> key (cs ! j)"
    "\<forall>j<i. key (cs ! i) < key (cs ! j)" by blast
  have "sort_key key cs \<noteq> []" using assms by (simp add: sort_key_eq_Nil_iff)
  then have "nearest_of key cs = Inr (hd (sort_key key cs))"
    by (cases "sort_key key cs") (simp_all add: nearest_of_def)
  with i show ?thesis by auto
qed

lemma find_nearest_bike_of_candidates:
  assumes "bike_candidates ev la lo cnt bt = Inr cs"
  shows "find_nearest_bike_try ev la lo cnt bt = answer_bike ev cs"
  using assms by (simp add: find_nearest_bike_try_def and_then_def)

lemma find_nearest_dock_spaces_of_candidates:
  assumes "dock_candidates ev la lo cnt = Inr ds"
  shows "find_nearest_dock_spaces_try ev la lo cnt = answer_dock ev ds"
  using assms by (simp add: find_nearest_dock_spaces_try_def and_then_def)

lemma answer_bike_nearest:
  assumes "cs \<noteq> []"
  shows "\<exists>i<length cs. answer_bike ev cs = Inr (render_bike ev (cs ! i)) \<and>
           (\<forall>j<length cs. c_distance (cs ! i) \<le> c_distance (cs ! j)) \<and>
           (\<forall>j<i. c_distance (cs ! i) < c_distance (cs ! j))"
proof -
  from nearest_of_first_min[OF assms, of c_distance] obtain i where
    "i < length cs" "nearest_of c_distance cs = Inr (cs ! i)"
    "\<forall>j<length cs. c_distance (cs ! i) \<le> c_distance (cs ! j)"
    "\<forall>j<i. c_distance (cs ! i) < c_distance (cs ! j)" by blast
  with assms show ?thesis
    by (intro exI[of _ i]) (simp add: answer_bike_def and_then_def)
qed






lemma answer_bike_empty: "answer_bike ev [] = Inr ''No bikes found matching criteria.''"
  by (simp add: answer_bike_def)

lemma answer_dock_empty: "answer_dock ev [] = Inr ''No docks found with sufficient spaces.''"
  by (simp add: answer_dock_def)

lemma find_nearest_bike_text:
  assumes "bike_candidates ev la lo cnt bt = Inr cs" "answer_bike ev cs = Inr t"
  shows "find_nearest_bike ev la lo cnt bt = t"
  using assms by (simp add: find_nearest_bike_def find_nearest_bike_of_candidates)

lemma find_nearest_dock_spaces_text:
  assumes "dock_candidates ev la lo cnt = Inr ds" "answer_dock ev ds = Inr t"
  shows "find_nearest_dock_spaces ev la lo cnt = t"
  using assms by (simp add: find_nearest_dock_spaces_def find_nearest_dock_spaces_of_candidates)





lemma bike_candidates_select:
  assumes "bike_candidates ev la lo cnt bt = Inr cs"
  shows "\<exists>stations statuses free_bikes.
           select_candidates ev la lo cnt (target_type_id bt) stations statuses free_bikes = Inr cs"
  using assms unfolding bike_candidates_def and_then_Inr_iff by blast

lemma station_candidates_type:
  assumes "list_all2 (is_station_candidate ev la lo target statuses) scs xs"
  shows "\<forall>c\<in>set scs. c_type c = ''Station''"
  using assms by (induction rule: list_all2_induct) (auto simp: is_station_candidate_def)

lemma bike_candidates_type:
  assumes "list_all2 (is_bike_candidate ev la lo) bcs xs"
  shows "\<forall>c\<in>set bcs. c_type c = ''Free Bike''"
  using assms by (induction rule: list_all2_induct) (auto simp: is_bike_candidate_def)

lemma select_candidates_split:
  assumes "select_candidates ev la lo cnt target stations statuses free_bikes = Inr cs"
  shows "\<exists>scs bcs. cs = scs @ bcs \<and> (\<forall>c\<in>set scs. c_type c = ''Station'') \<and>
           (\<forall>c\<in>set bcs. c_type c = ''Free Bike'')"
proof -
  from assms obtain scs bcs where s: "cs = scs @ bcs"
    "check_stations ev la lo cnt target stations statuses = Inr scs"
    "if cnt = 1 then list_all2 (is_bike_candidate ev la lo) bcs
        (filter (spec_bike_eligible target) free_bikes) else bcs = []"
    unfolding select_candidates_iff by blast
  have "\<forall>c\<in>set scs. c_type c = ''Station''"
    using s(2) station_candidates_type unfolding check_stations_iff by blast
  moreover have "\<forall>c\<in>set bcs. c_type c = ''Free Bike''"
    using s(3) bike_candidates_type by (cases "cnt = 1") auto
  ultimately show ?thesis using s(1) by blast
qed

lemma first_min_in_prefix:
  fixes key :: "'c \<Rightarrow> real"
  assumes i: "i < length (xs @ ys)" "\<forall>j<i. key ((xs @ ys) ! i) < key ((xs @ ys) ! j)"
    and s: "s \<in> set xs" "key s \<le> key ((xs @ ys) ! i)"
  shows "i < length xs"
proof (rule ccontr)
  assume "\<not> i < length xs"
  from s(1) obtain k where k: "k < length xs" "xs ! k = s" by (auto simp: in_set_conv_nth)
  with \<open>\<not> i < length xs\<close> have "k < i" by simp
  with i(2) have "key ((xs @ ys) ! i) < key ((xs @ ys) ! k)" by blast
  with k s(2) show False by (simp add: nth_append)
qed

lemma sublist_lower_iff: "sublist w (lower label) \<longleftrightarrow> ci_contains label w"
proof
  assume "sublist w (lower label)"
  then obtain u where "sublist u label" "w = map lower_char u"
    unfolding lower_def by (auto dest: sublist_map_rightE)
  then show "ci_contains label w" by (auto simp: ci_contains_def lower_def)
next
  assume "ci_contains label w"
  then obtain u where u: "sublist u label" "lower u = w" by (auto simp: ci_contains_def)
  from u(1) obtain ps ss where "label = ps @ u @ ss" by (auto simp: sublist_def)
  then have "lower label = lower ps @ w @ lower ss" using u(2) by (simp add: lower_def)
  then show "sublist w (lower label)" by (auto simp: sublist_def)
qed

lemma target_type_id_spec: "target_type_id bike_type = spec_target_type bike_type"
proof (cases bike_type)
  case None
  then show ?thesis by (simp add: target_type_id_def spec_target_type_def)
next
  case (Some label)
  show ?thesis
  proof (cases "label = []")
    case True
    have "\<not> ci_contains [] w" if "w \<noteq> []" for w
      using that by (auto simp: ci_contains_def lower_def)
    with Some True show ?thesis by (simp add: target_type_id_def spec_target_type_def)
  next
    case False
    with Some show ?thesis
      by (simp add: target_type_id_def spec_target_type_def sublist_lower_iff)
  qed
qed

lemma no_restriction_same_text:
  assumes "target_type_id bike_type = None"
  shows "find_nearest_bike ev la lo cnt bike_type = find_nearest_bike ev la lo cnt None"
proof -
  have "target_type_id None = None" by (simp add: target_type_id_def)
  with assms have "bike_candidates ev la lo cnt bike_type = bike_candidates ev la lo cnt None"
    by (simp add: bike_candidates_def)
  then show ?thesis by (simp add: find_nearest_bike_def find_nearest_bike_try_def)
qed

lemma dock_step_None_iff:
  "dock_step ev la lo cnt statuses item = Inr None \<longleftrightarrow> \<not> spec_dock_eligible cnt statuses item"
  by (cases item)
     (auto simp: dock_step_def spec_dock_eligible_def and_then_Inr_iff getitem_Inr_iff
        split: option.splits)

lemma dock_step_Some_iff:
  "dock_step ev la lo cnt statuses item = Inr (Some c) \<longleftrightarrow>
     spec_dock_eligible cnt statuses item \<and> is_dock_candidate ev la lo statuses c item"
  by (cases item, cases c)
     (auto simp: dock_step_def spec_dock_eligible_def is_dock_candidate_def
        and_then_Inr_iff getitem_Inr_iff split: option.splits)

lemma check_docks_iff:
  "check_docks ev la lo cnt stations statuses = Inr ds \<longleftrightarrow>
     list_all2 (is_dock_candidate ev la lo statuses) ds
       (filter (spec_dock_eligible cnt statuses) stations)"
  unfolding check_docks_def collect_Inr_iff dock_step_None_iff dock_step_Some_iff
  by (simp add: list_all2_filter_conj)

lemma spec_station_eligible_mono:
  "c1 \<le> c2 \<Longrightarrow> spec_station_eligible c2 target statuses item
     \<Longrightarrow> spec_station_eligible c1 target statuses item"
  by (auto simp: spec_station_eligible_def split: option.splits)

lemma spec_dock_eligible_mono:
  "c1 \<le> c2 \<Longrightarrow> spec_dock_eligible c2 statuses item \<Longrightarrow> spec_dock_eligible c1 statuses item"
  by (auto simp: spec_dock_eligible_def split: option.splits)

lemma renting_station_eligible:
  assumes "cnt \<le> 0"
  shows "spec_station_eligible cnt target statuses item \<longleftrightarrow>
           (case map_of statuses (fst item) of
              None \<Rightarrow> False | Some status \<Rightarrow> s_is_renting status = Some True)"
  using assms by (auto simp: spec_station_eligible_def split: option.splits)

lemma returning_station_eligible:
  assumes "cnt \<le> 0"
  shows "spec_dock_eligible cnt statuses item \<longleftrightarrow>
           (case map_of statuses (fst item) of
              None \<Rightarrow> False | Some status \<Rightarrow> s_is_returning status = Some True)"
  using assms by (auto simp: spec_dock_eligible_def split: option.splits)

lemma dock_step_missing_count:
  assumes "cnt \<le> 0" "map_of statuses sid = Some status" "s_is_returning status = Some True"
    "s_num_docks_available status = None" "s_lat station = Some a" "s_lon station = Some b"
    "geodesic_meters ev (la, lo) (a, b) = Inr d" "s_name station = Some n"
  shows "dock_step ev la lo cnt statuses (sid, station) = Inl (KeyError ''num_docks_available'')"
  using assms by (simp add: dock_step_def and_then_def getitem_def)

section \<open>The claims\<close>

text \<open>
  C1. In \<^verbatim>\<open>find_nearest_bike\<close>, the station loop returns a list of candidates exactly
  when that list holds, in the order of the station dict, one Candidate of kind Station
  for each station that has a joined status with \<^verbatim>\<open>is_renting\<close> true and an available
  count of at least \<open>cnt\<close>, and nothing else. The available count is the sum of the
  matching per-type counts under a type restriction (0 without a breakdown or a match)
  and the aggregate count otherwise. A station without a joined status or with
  \<^verbatim>\<open>is_renting\<close> not true is not eligible, so it has no Candidate.
\<close>

theorem station_candidates_iff_eligible:
  "(check_stations ev latitude longitude cnt target stations statuses = Inr cs \<longleftrightarrow>
      list_all2 (is_station_candidate ev latitude longitude target statuses) cs
        (filter (spec_station_eligible cnt target statuses) stations)) \<and>
   (\<forall>item \<in> set stations.
      (case map_of statuses (fst item) of
         None \<Rightarrow> True
       | Some status \<Rightarrow> s_is_renting status \<noteq> Some True) \<longrightarrow>
      item \<notin> set (filter (spec_station_eligible cnt target statuses) stations))"
proof
  show "check_stations ev latitude longitude cnt target stations statuses = Inr cs \<longleftrightarrow>
      list_all2 (is_station_candidate ev latitude longitude target statuses) cs
        (filter (spec_station_eligible cnt target statuses) stations)"
    by (rule check_stations_iff)
next
  show "\<forall>item \<in> set stations.
      (case map_of statuses (fst item) of
         None \<Rightarrow> True
       | Some status \<Rightarrow> s_is_renting status \<noteq> Some True) \<longrightarrow>
      item \<notin> set (filter (spec_station_eligible cnt target statuses) stations)"
    by (auto simp: spec_station_eligible_def split: option.splits)
qed

theorem station_candidates_iff_eligible_witness:
  "check_stations ev1 (378 / 10) (- (1224 / 10)) 1 None example_stations example_statuses
     = Inr [market_st, depot] \<and>
   list_all2 (is_station_candidate ev1 (378 / 10) (- (1224 / 10)) None example_statuses)
     [market_st, depot]
     (filter (spec_station_eligible 1 None example_statuses) example_stations) \<and>
   filter (spec_station_eligible 1 None example_statuses) example_stations
     = [example_stations ! 0, example_stations ! 2] \<and>
   example_stations ! 1 \<in> set example_stations \<and>
   example_stations ! 1
     \<notin> set (filter (spec_station_eligible 1 None example_statuses) example_stations)"
proof -
  have run: "check_stations ev1 (378 / 10) (- (1224 / 10)) 1 None example_stations
      example_statuses = Inr [market_st, depot]"
    by code_simp
  have elig: "filter (spec_station_eligible 1 None example_statuses) example_stations
      = [example_stations ! 0, example_stations ! 2]"
    by code_simp
  have mem: "example_stations ! 1 \<in> set example_stations"
    by code_simp
  have off: "(case map_of example_statuses (fst (example_stations ! 1)) of
       None \<Rightarrow> True | Some status \<Rightarrow> s_is_renting status \<noteq> Some True)"
    by code_simp
  note inst = station_candidates_iff_eligible
    [of ev1 "378 / 10" "- (1224 / 10)" 1 None example_stations example_statuses
        "[market_st, depot]"]
  have cands: "list_all2
      (is_station_candidate ev1 (378 / 10) (- (1224 / 10)) None example_statuses)
      [market_st, depot]
      (filter (spec_station_eligible 1 None example_statuses) example_stations)"
    using inst run by blast
  have out: "example_stations ! 1
     \<notin> set (filter (spec_station_eligible 1 None example_statuses) example_stations)"
    using inst mem off by blast
  from run cands elig mem out show ?thesis by blast
qed



text \<open>
  C3. In \<^verbatim>\<open>find_nearest_bike\<close>, the candidates are those of the stations followed by
  those of the free bikes. When \<open>cnt\<close> is not 1 (also when it is 0 or negative) there is
  no free-bike Candidate. When \<open>cnt\<close> is 1 the free-bike Candidates are, in feed order,
  exactly one per free bike that is neither reserved nor disabled and, under a type
  restriction, has the matching vehicle type; each has kind Free Bike and available
  count 1. A reserved, disabled or mismatching bike is not among them.
\<close>

theorem free_bike_candidates:
  "(select_candidates ev latitude longitude cnt target stations statuses free_bikes = Inr cs
      \<longleftrightarrow>
      (\<exists>scs bcs. cs = scs @ bcs \<and>
         check_stations ev latitude longitude cnt target stations statuses = Inr scs \<and>
         (if cnt = 1
          then list_all2 (is_bike_candidate ev latitude longitude) bcs
                 (filter (spec_bike_eligible target) free_bikes)
          else bcs = []))) \<and>
   (\<forall>bike \<in> set free_bikes.
      b_is_reserved bike = Some True \<or> b_is_disabled bike = Some True \<or>
      (restricted target \<and> b_vehicle_type_id bike \<noteq> target) \<longrightarrow>
      bike \<notin> set (filter (spec_bike_eligible target) free_bikes)) \<and>
   (\<forall>c bike. is_bike_candidate ev latitude longitude c bike \<longrightarrow>
      c_type c = ''Free Bike'' \<and> c_available c = 1)"
proof (intro conjI)
  show "select_candidates ev latitude longitude cnt target stations statuses free_bikes = Inr cs
      \<longleftrightarrow>
      (\<exists>scs bcs. cs = scs @ bcs \<and>
         check_stations ev latitude longitude cnt target stations statuses = Inr scs \<and>
         (if cnt = 1
          then list_all2 (is_bike_candidate ev latitude longitude) bcs
                 (filter (spec_bike_eligible target) free_bikes)
          else bcs = []))"
    by (rule select_candidates_iff)
next
  show "\<forall>bike \<in> set free_bikes.
      b_is_reserved bike = Some True \<or> b_is_disabled bike = Some True \<or>
      (restricted target \<and> b_vehicle_type_id bike \<noteq> target) \<longrightarrow>
      bike \<notin> set (filter (spec_bike_eligible target) free_bikes)"
    by (auto simp: spec_bike_eligible_def)
next
  show "\<forall>c bike. is_bike_candidate ev latitude longitude c bike \<longrightarrow>
      c_type c = ''Free Bike'' \<and> c_available c = 1"
    by (simp add: is_bike_candidate_def)
qed

theorem free_bike_candidates_witness:
  "select_candidates ev1 (378 / 10) (- (1224 / 10)) 1 None
      example_stations example_statuses example_bikes
     = Inr ([market_st, depot] @ [bike_b1, bike_b3]) \<and>
   select_candidates ev1 (378 / 10) (- (1224 / 10)) 2 None
      example_stations example_statuses example_bikes
     = Inr ([market_st, depot] @ []) \<and>
   filter (spec_bike_eligible None) example_bikes = [example_bikes ! 0, example_bikes ! 2] \<and>
   example_bikes ! 1 \<notin> set (filter (spec_bike_eligible None) example_bikes)"
proof -
  have s1: "check_stations ev1 (378 / 10) (- (1224 / 10)) 1 None example_stations
      example_statuses = Inr [market_st, depot]"
    by code_simp
  have s2: "check_stations ev1 (378 / 10) (- (1224 / 10)) 2 None example_stations
      example_statuses = Inr [market_st, depot]"
    by code_simp
  have elig: "filter (spec_bike_eligible None) example_bikes
      = [example_bikes ! 0, example_bikes ! 2]"
    by code_simp
  have cands: "list_all2 (is_bike_candidate ev1 (378 / 10) (- (1224 / 10)))
      [bike_b1, bike_b3] [example_bikes ! 0, example_bikes ! 2]"
    by code_simp
  have mem: "example_bikes ! 1 \<in> set example_bikes"
    by code_simp
  have res: "b_is_reserved (example_bikes ! 1) = Some True"
    by code_simp
  have a: "select_candidates ev1 (378 / 10) (- (1224 / 10)) 1 None
      example_stations example_statuses example_bikes
     = Inr ([market_st, depot] @ [bike_b1, bike_b3])"
    using free_bike_candidates
      [of ev1 "378 / 10" "- (1224 / 10)" 1 None example_stations example_statuses
          example_bikes "[market_st, depot] @ [bike_b1, bike_b3]"]
      s1 elig cands by auto
  have b: "select_candidates ev1 (378 / 10) (- (1224 / 10)) 2 None
      example_stations example_statuses example_bikes
     = Inr ([market_st, depot] @ [])"
    using free_bike_candidates
      [of ev1 "378 / 10" "- (1224 / 10)" 2 None example_stations example_statuses
          example_bikes "[market_st, depot] @ []"]
      s2 by auto
  have c: "example_bikes ! 1 \<notin> set (filter (spec_bike_eligible None) example_bikes)"
    using free_bike_candidates
      [of ev1 "378 / 10" "- (1224 / 10)" 1 None example_stations example_statuses
          example_bikes "[]"]
      mem res by blast
  from a b c elig show ?thesis by simp
qed



text \<open>
  C5, as amended. \<^verbatim>\<open>fetch_feed\<close> fails exactly when the GET raises or when the body of
  the response does not parse as JSON, with that exception, and returns no document
  then. It does not look at the status code: whatever the status, the outcome is that
  of \<^verbatim>\<open>response.json()\<close>.
\<close>

theorem fetch_feed_outcome:
  "(fetch_feed cl i url = Inl e \<longleftrightarrow>
      cl i url = Inl e \<or> (\<exists>r. cl i url = Inr r \<and> r_json r = Inl e)) \<and>
   (fetch_feed cl i url = Inr doc \<longleftrightarrow> (\<exists>r. cl i url = Inr r \<and> r_json r = Inr doc)) \<and>
   (\<forall>r. cl i url = Inr r \<longrightarrow> fetch_feed cl i url = r_json r)"
  by (cases "cl i url") (simp_all add: fetch_feed_def and_then_def)

theorem fetch_feed_outcome_witness:
  "fetch_feed down_client 3 (Some ''https://feed/info.json'')
     = Inl (HTTPError ''All connection attempts failed'') \<and>
   fetch_feed garbled_client 3 (Some ''https://feed/info.json'')
     = Inl (JSONDecodeError ''Expecting value: line 1 column 1 (char 0)'') \<and>
   fetch_feed not_found_client 3 (Some ''https://feed/info.json'') = Inr error_body"
proof -
  have a: "down_client 3 (Some ''https://feed/info.json'')
      = Inl (HTTPError ''All connection attempts failed'')"
    by (simp add: down_client_def)
  have b: "garbled_client 3 (Some ''https://feed/info.json'')
      = Inr \<lparr>status_code = 200,
          r_json = Inl (JSONDecodeError ''Expecting value: line 1 column 1 (char 0)'')\<rparr>"
    by (simp add: garbled_client_def)
  have c: "not_found_client 3 (Some ''https://feed/info.json'')
      = Inr \<lparr>status_code = 404, r_json = Inr error_body\<rparr>"
    by (simp add: not_found_client_def)
  have a': "fetch_feed down_client 3 (Some ''https://feed/info.json'')
     = Inl (HTTPError ''All connection attempts failed'')"
    using a fetch_feed_outcome [of down_client 3 "Some ''https://feed/info.json''"
      "HTTPError ''All connection attempts failed''"] by blast
  have b': "fetch_feed garbled_client 3 (Some ''https://feed/info.json'')
     = Inl (JSONDecodeError ''Expecting value: line 1 column 1 (char 0)'')"
    using b fetch_feed_outcome [of garbled_client 3 "Some ''https://feed/info.json''"
      "JSONDecodeError ''Expecting value: line 1 column 1 (char 0)''"] by simp
  have c': "fetch_feed not_found_client 3 (Some ''https://feed/info.json'') = Inr error_body"
    using c fetch_feed_outcome [of not_found_client 3 "Some ''https://feed/info.json''"
      _ error_body] by simp
  from a' b' c' show ?thesis by blast
qed

text \<open>C5 as stated fails: a response with status 404 whose body parses as JSON is
  returned as the document.\<close>

theorem fetch_feed_non_success_counterexample:
  "not_found_client 3 (Some ''https://feed/info.json'')
     = Inr \<lparr>status_code = 404, r_json = Inr error_body\<rparr> \<and>
   fetch_feed not_found_client 3 (Some ''https://feed/info.json'') = Inr error_body"
  by (simp add: fetch_feed_def not_found_client_def and_then_def)

text \<open>
  C6. With count 0, a station whose joined status is returning but has no
  \<^verbatim>\<open>num_docks_available\<close> passes the test of \<^verbatim>\<open>find_nearest_dock_spaces\<close> (the
  default 0 reaches the count), and building its candidate raises \<^verbatim>\<open>KeyError\<close>: the
  operation returns the error text and the station is no Candidate. With count 1 the
  same feed gives the no-docks message.
\<close>

theorem dock_count_missing_raises:
  "stations_of (stations_doc virtual_info) = Inr [(''s3'', virtual_info ! 0)] \<and>
   stations_of (stations_doc virtual_status) = Inr [(''s3'', virtual_status ! 0)] \<and>
   s_is_returning (virtual_status ! 0) = Some True \<and>
   s_num_docks_available (virtual_status ! 0) = None \<and>
   spec_dock_eligible 0 [(''s3'', virtual_status ! 0)] (''s3'', virtual_info ! 0) \<and>
   dock_candidates ev_virtual (378 / 10) (- (1224 / 10)) 0
     = Inl (KeyError ''num_docks_available'') \<and>
   find_nearest_dock_spaces ev_virtual (378 / 10) (- (1224 / 10)) 0
     = ''Error finding nearest dock spaces: '' @ [CHR 0x27] @ ''num_docks_available'' @ [CHR 0x27] \<and>
   find_nearest_dock_spaces ev_virtual (378 / 10) (- (1224 / 10)) 1
     = ''No docks found with sufficient spaces.''"
  by (intro conjI; code_simp)

text \<open>
  C7. The vehicle type taken from the label is the one the specification describes:
  the electric key when the label contains \<^verbatim>\<open>electric\<close> or \<^verbatim>\<open>ebike\<close> ignoring case,
  otherwise the classic key when it contains \<^verbatim>\<open>classic\<close> or \<^verbatim>\<open>standard\<close>, otherwise
  none, as for no label. A label that gives no type behaves as no label: in the
  available count of a station, in the free-bike filter, and in the text returned.
\<close>

theorem bike_type_mapping:
  "target_type_id bike_type = spec_target_type bike_type \<and>
   target_type_id None = None \<and>
   (target_type_id bike_type = None \<longrightarrow>
      available_count (target_type_id bike_type) status = available_count None status \<and>
      bike_step ev latitude longitude (target_type_id bike_type) bike
        = bike_step ev latitude longitude None bike \<and>
      find_nearest_bike ev latitude longitude cnt bike_type
        = find_nearest_bike ev latitude longitude cnt None)"
  using target_type_id_spec no_restriction_same_text
  by (auto simp: target_type_id_def)

theorem bike_type_mapping_witness:
  "target_type_id (Some ''Electric_Bike'') = Some ''2'' \<and>
   target_type_id (Some ''my EBIKE'') = Some ''2'' \<and>
   target_type_id (Some ''classic_bike'') = Some ''1'' \<and>
   target_type_id (Some ''Standard'') = Some ''1'' \<and>
   target_type_id (Some ''classic electric'') = Some ''2'' \<and>
   spec_target_type (Some ''cargo'') = None \<and>
   find_nearest_bike ev1 (378 / 10) (- (1224 / 10)) 1 (Some ''cargo'')
     = find_nearest_bike ev1 (378 / 10) (- (1224 / 10)) 1 None"
proof -
  have a: "target_type_id (Some ''Electric_Bike'') = Some ''2''"
    "target_type_id (Some ''my EBIKE'') = Some ''2''"
    "target_type_id (Some ''classic_bike'') = Some ''1''"
    "target_type_id (Some ''Standard'') = Some ''1''"
    "target_type_id (Some ''classic electric'') = Some ''2''"
    by code_simp+
  have n: "target_type_id (Some ''cargo'') = None"
    by code_simp
  from n bike_type_mapping [of "Some ''cargo''" _ ev1 "378 / 10" "- (1224 / 10)" _ 1]
  have "spec_target_type (Some ''cargo'') = None"
    "find_nearest_bike ev1 (378 / 10) (- (1224 / 10)) 1 (Some ''cargo'')
     = find_nearest_bike ev1 (378 / 10) (- (1224 / 10)) 1 None"
    by simp_all
  with a show ?thesis by blast
qed

text \<open>
  C8. For counts \<open>c1 \<le> c2\<close> over the same feed, the stations eligible at \<open>c2\<close> are among
  those eligible at \<open>c1\<close>, for bikes and for docks; a station that gives a candidate at
  \<open>c2\<close> gives the same candidate at \<open>c1\<close>.
\<close>

theorem eligibility_antitone_in_count:
  assumes "c1 \<le> c2"
  shows "{item \<in> set stations. spec_station_eligible c2 target statuses item}
           \<subseteq> {item \<in> set stations. spec_station_eligible c1 target statuses item} \<and>
         {item \<in> set stations. spec_dock_eligible c2 statuses item}
           \<subseteq> {item \<in> set stations. spec_dock_eligible c1 statuses item} \<and>
         (station_step ev latitude longitude c2 target statuses item = Inr (Some c) \<longrightarrow>
            station_step ev latitude longitude c1 target statuses item = Inr (Some c)) \<and>
         (dock_step ev latitude longitude c2 statuses item = Inr (Some d) \<longrightarrow>
            dock_step ev latitude longitude c1 statuses item = Inr (Some d))"
  using assms spec_station_eligible_mono spec_dock_eligible_mono
  unfolding station_step_Some_iff dock_step_Some_iff by blast

theorem eligibility_antitone_in_count_witness:
  "(1::int) \<le> 3 \<and>
   {item \<in> set example_stations. spec_station_eligible 3 None example_statuses item}
     \<subseteq> {item \<in> set example_stations. spec_station_eligible 1 None example_statuses item} \<and>
   {item \<in> set example_stations. spec_dock_eligible 3 example_statuses item}
     \<subseteq> {item \<in> set example_stations. spec_dock_eligible 1 example_statuses item} \<and>
   station_step ev1 (378 / 10) (- (1224 / 10)) 3 None example_statuses (example_stations ! 0)
     = Inr (Some market_st) \<and>
   station_step ev1 (378 / 10) (- (1224 / 10)) 1 None example_statuses (example_stations ! 0)
     = Inr (Some market_st) \<and>
   dock_step ev1 (378 / 10) (- (1224 / 10)) 3 example_statuses (example_stations ! 0)
     = Inr (Some dock_market_st) \<and>
   dock_step ev1 (378 / 10) (- (1224 / 10)) 1 example_statuses (example_stations ! 0)
     = Inr (Some dock_market_st) \<and>
   filter (spec_station_eligible 3 None example_statuses) example_stations
     = [example_stations ! 0] \<and>
   filter (spec_station_eligible 1 None example_statuses) example_stations
     = [example_stations ! 0, example_stations ! 2]"
proof -
  have le: "(1::int) \<le> 3" by simp
  have s: "station_step ev1 (378 / 10) (- (1224 / 10)) 3 None example_statuses
      (example_stations ! 0) = Inr (Some market_st)"
    by code_simp
  have d: "dock_step ev1 (378 / 10) (- (1224 / 10)) 3 example_statuses
      (example_stations ! 0) = Inr (Some dock_market_st)"
    by code_simp
  have f3: "filter (spec_station_eligible 3 None example_statuses) example_stations
     = [example_stations ! 0]"
    by code_simp
  have f1: "filter (spec_station_eligible 1 None example_statuses) example_stations
     = [example_stations ! 0, example_stations ! 2]"
    by code_simp
  from eligibility_antitone_in_count
    [OF le, of example_stations None example_statuses ev1 "378 / 10" "- (1224 / 10)"
       "example_stations ! 0" market_st dock_market_st]
    le s d f3 f1
  show ?thesis by blast
qed

text \<open>
  C9. When the candidate list is empty, \<^verbatim>\<open>find_nearest_bike\<close> returns the fixed
  message \<^verbatim>\<open>No bikes found matching criteria.\<close> and \<^verbatim>\<open>find_nearest_dock_spaces\<close>
  returns \<^verbatim>\<open>No docks found with sufficient spaces.\<close>; neither text begins with the
  operation's error prefix.
\<close>

theorem no_candidates_message:
  "(bike_candidates ev latitude longitude cnt bike_type = Inr [] \<longrightarrow>
      find_nearest_bike ev latitude longitude cnt bike_type = ''No bikes found matching criteria.'' \<and>
      \<not> prefix ''Error finding nearest bike: '' (find_nearest_bike ev latitude longitude cnt bike_type)) \<and>
   (dock_candidates ev latitude longitude cnt = Inr [] \<longrightarrow>
      find_nearest_dock_spaces ev latitude longitude cnt = ''No docks found with sufficient spaces.'' \<and>
      \<not> prefix ''Error finding nearest dock spaces: '' (find_nearest_dock_spaces ev latitude longitude cnt))"
proof (intro conjI impI)
  assume a: "bike_candidates ev latitude longitude cnt bike_type = Inr []"
  show t: "find_nearest_bike ev latitude longitude cnt bike_type = ''No bikes found matching criteria.''"
    using a answer_bike_empty by (rule find_nearest_bike_text)
  show "\<not> prefix ''Error finding nearest bike: '' (find_nearest_bike ev latitude longitude cnt bike_type)"
    unfolding t by simp
next
  assume a: "dock_candidates ev latitude longitude cnt = Inr []"
  show t: "find_nearest_dock_spaces ev latitude longitude cnt = ''No docks found with sufficient spaces.''"
    using a answer_dock_empty by (rule find_nearest_dock_spaces_text)
  show "\<not> prefix ''Error finding nearest dock spaces: '' (find_nearest_dock_spaces ev latitude longitude cnt)"
    unfolding t by simp
qed

theorem no_candidates_message_witness:
  "bike_candidates ev1 (378 / 10) (- (1224 / 10)) 9 None = Inr [] \<and>
   dock_candidates ev1 (378 / 10) (- (1224 / 10)) 9 = Inr [] \<and>
   find_nearest_bike ev1 (378 / 10) (- (1224 / 10)) 9 None
     = ''No bikes found matching criteria.'' \<and>
   \<not> prefix ''Error finding nearest bike: ''
       (find_nearest_bike ev1 (378 / 10) (- (1224 / 10)) 9 None) \<and>
   find_nearest_dock_spaces ev1 (378 / 10) (- (1224 / 10)) 9
     = ''No docks found with sufficient spaces.'' \<and>
   \<not> prefix ''Error finding nearest dock spaces: ''
       (find_nearest_dock_spaces ev1 (378 / 10) (- (1224 / 10)) 9)"
proof -
  have b: "bike_candidates ev1 (378 / 10) (- (1224 / 10)) 9 None = Inr []"
    by code_simp
  have d: "dock_candidates ev1 (378 / 10) (- (1224 / 10)) 9 = Inr []"
    by code_simp
  from b d no_candidates_message [of ev1 "378 / 10" "- (1224 / 10)" 9 None]
  show ?thesis by blast
qed

text \<open>
  C10. In \<^verbatim>\<open>find_nearest_bike\<close> with count 1, the candidate list is the station
  Candidates followed by the free-bike Candidates. When a station Candidate \<open>s\<close> is at
  minimal distance (free bikes may be at the same distance), the reported candidate is
  a station Candidate at that distance.
\<close>

theorem station_reported_on_tie:
  assumes cands: "bike_candidates ev latitude longitude 1 bike_type = Inr cs"
    and station: "s \<in> set cs" "c_type s = ''Station''"
    and minimal: "\<forall>c\<in>set cs. c_distance s \<le> c_distance c"
  shows "\<exists>scs bcs. cs = scs @ bcs \<and>
           (\<forall>c\<in>set scs. c_type c = ''Station'') \<and>
           (\<forall>c\<in>set bcs. c_type c = ''Free Bike'') \<and>
           (\<exists>w\<in>set scs. c_distance w = c_distance s \<and>
              find_nearest_bike ev latitude longitude 1 bike_type = render_bike ev w)"
proof -
  from bike_candidates_select[OF cands] obtain stations statuses free_bikes where
    "select_candidates ev latitude longitude 1 (target_type_id bike_type)
       stations statuses free_bikes = Inr cs" by blast
  from select_candidates_split[OF this]
  obtain scs bcs where sp: "cs = scs @ bcs" "\<forall>c\<in>set scs. c_type c = ''Station''"
    "\<forall>c\<in>set bcs. c_type c = ''Free Bike''" by blast
  have "s \<notin> set bcs"
  proof
    assume "s \<in> set bcs"
    with sp(3) have "c_type s = ''Free Bike''" by blast
    with station(2) show False by simp
  qed
  with station(1) sp(1) have s_in: "s \<in> set scs" by simp
  have ne: "cs \<noteq> []" using station(1) by auto
  from answer_bike_nearest[OF ne, of ev] obtain i where i: "i < length cs"
    "answer_bike ev cs = Inr (render_bike ev (cs ! i))"
    "\<forall>j<length cs. c_distance (cs ! i) \<le> c_distance (cs ! j)"
    "\<forall>j<i. c_distance (cs ! i) < c_distance (cs ! j)" by blast
  have le: "c_distance s \<le> c_distance (cs ! i)"
    using minimal i(1) by simp
  have "c_distance (cs ! i) \<le> c_distance s"
    using i(3) station(1) by (auto simp: in_set_conv_nth)
  with le have eq: "c_distance (cs ! i) = c_distance s" by simp
  have "i < length scs"
    using i(1,4) s_in le unfolding sp(1) by (rule first_min_in_prefix)
  then have w: "cs ! i \<in> set scs" by (simp add: sp(1) nth_append)
  have "find_nearest_bike ev latitude longitude 1 bike_type = render_bike ev (cs ! i)"
    using cands i(2) by (rule find_nearest_bike_text)
  with w eq sp show ?thesis by blast
qed

theorem station_reported_on_tie_witness:
  "bike_candidates ev1 (378 / 10) (- (1224 / 10)) 1 None
     = Inr [market_st, depot, bike_b1, bike_b3] \<and>
   c_type market_st = ''Station'' \<and> c_type bike_b1 = ''Free Bike'' \<and>
   c_distance bike_b1 = c_distance market_st \<and>
   c_distance market_st \<le> c_distance depot \<and>
   c_distance market_st \<le> c_distance bike_b3 \<and>
   (\<exists>scs bcs. [market_st, depot, bike_b1, bike_b3] = scs @ bcs \<and>
      (\<forall>c\<in>set scs. c_type c = ''Station'') \<and>
      (\<forall>c\<in>set bcs. c_type c = ''Free Bike'') \<and>
      (\<exists>w\<in>set scs. c_distance w = c_distance market_st \<and>
         find_nearest_bike ev1 (378 / 10) (- (1224 / 10)) 1 None = render_bike ev1 w))"
proof -
  have b: "bike_candidates ev1 (378 / 10) (- (1224 / 10)) 1 None
     = Inr [market_st, depot, bike_b1, bike_b3]"
    by code_simp
  have m: "market_st \<in> set [market_st, depot, bike_b1, bike_b3]"
    by simp
  have ty: "c_type market_st = ''Station''" "c_type bike_b1 = ''Free Bike''"
    by (simp_all add: market_st_def bike_b1_def)
  have tie: "c_distance bike_b1 = c_distance market_st"
    by (simp add: market_st_def bike_b1_def)
  have le: "c_distance market_st \<le> c_distance depot"
    "c_distance market_st \<le> c_distance bike_b3"
    by (simp_all add: market_st_def depot_def bike_b3_def)
  have least: "\<forall>c\<in>set [market_st, depot, bike_b1, bike_b3]. c_distance market_st \<le> c_distance c"
    using le tie by simp
  from station_reported_on_tie [OF b m ty(1) least] b ty tie le
  show ?thesis by blast
qed

end
